theory Spec2Isabelle
  imports Complex_Main "HOL-Library.Sublist" "HOL-Library.AList"
begin

section \<open>JavaScript values\<close>

text \<open>
  The values that flow through the client (\<open>frontend/src/App.js\<close>) and the proxy
  (\<open>server.js\<close>): what \<open>JSON.parse\<close> can return, and \<open>undefined\<close>, the result of reading
  a property that an object does not have. A number is a double whose value is an
  integer (\<open>JNum n\<close> is the double \<open>n\<close>); fractions, \<open>NaN\<close> and the infinities are not
  represented. The program's only arithmetic is \<open>+ 1\<close> on a usage counter, which is
  the addition of doubles (\<open>plus_one\<close> below), and the comparison with the daily limit.
  A string is the list of the UTF-8 bytes of its text; where the program counts or
  cuts in UTF-16 code units, the model does so on the bytes (\<open>utf16_take\<close> below).
  An object is the list of its own properties in insertion order; the first binding of
  a key is the one that is read.
\<close>

datatype jsval =
    JUndefined
  | JNull
  | JBool bool
  | JNum int
  | JStr string
  | JArr "jsval list"
  | JObj "(string \<times> jsval) list"

type_synonym obj = "(string \<times> jsval) list"

text \<open>
  A thrown exception. \<open>Error m\<close> is \<open>new Error(m)\<close>; the other two are raised by the
  runtime itself: a \<open>TypeError\<close> by a property read on \<open>null\<close> or \<open>undefined\<close> and
  by a \<open>fetch\<close> that cannot reach its host, a \<open>SyntaxError\<close> by \<open>JSON.parse\<close> and
  \<open>response.json()\<close> on a text that is not JSON. The message of a failed \<open>fetch\<close>
  is given by the outside world; for the other runtime exceptions one text each stands
  for the runtime's wording, on which nothing below depends.
\<close>

datatype js_error = Error string | TypeError string | SyntaxError string

fun message :: "js_error \<Rightarrow> string" where
  "message (Error m) = m"
| "message (TypeError m) = m"
| "message (SyntaxError m) = m"

text \<open>Truthiness, as \<open>if (v)\<close>, \<open>!v\<close> and \<open>v || w\<close> test it.\<close>

fun truthy :: "jsval \<Rightarrow> bool" where
  "truthy JUndefined = False"
| "truthy JNull = False"
| "truthy (JBool b) = b"
| "truthy (JNum n) = (n \<noteq> 0)"
| "truthy (JStr s) = (s \<noteq> [])"
| "truthy (JArr xs) = True"
| "truthy (JObj kvs) = True"

definition js_or :: "jsval \<Rightarrow> jsval \<Rightarrow> jsval" where
  "js_or v w = (if truthy v then v else w)"

text \<open>\<open>o[k]\<close> on an object: the value of the property, \<open>undefined\<close> when it is absent.\<close>

definition lookup :: "obj \<Rightarrow> string \<Rightarrow> jsval" where
  "lookup kvs k = (case map_of kvs k of None \<Rightarrow> JUndefined | Some v \<Rightarrow> v)"

text \<open>
  \<open>v.k\<close> and \<open>v[k]\<close> for a property name \<open>k\<close> that no prototype defines (all the names
  the program reads are such): a \<open>TypeError\<close> on \<open>null\<close> and \<open>undefined\<close>, the own
  property on an object, \<open>undefined\<close> on every other value.
\<close>

fun get_prop :: "jsval \<Rightarrow> string \<Rightarrow> js_error + jsval" where
  "get_prop JUndefined k = Inl (TypeError (''Cannot read properties of undefined (reading '' @ k @ '')''))"
| "get_prop JNull k = Inl (TypeError (''Cannot read properties of null (reading '' @ k @ '')''))"
| "get_prop (JObj kvs) k = Inr (lookup kvs k)"
| "get_prop v k = Inr JUndefined"

text \<open>
  \<open>s.slice(0, n)\<close>: the first \<open>n\<close> UTF-16 code units of a string. A character of
  one, two or three bytes is one code unit, a character of four bytes is two (a
  surrogate pair). When the cut falls inside a pair, the result ends with the high
  surrogate alone, written as the three bytes that encode it.
\<close>

fun high_surrogate :: "string \<Rightarrow> string" where
  "high_surrogate (b0 # b1 # b2 # bs) =
     (let cp = (of_char b0 mod 8) * 262144 + (of_char b1 mod 64) * 4096 + (of_char b2 mod 64) * 64;
          hs = 55296 + (cp - 65536) div 1024 :: nat
      in [char_of (224 + hs div 4096), char_of (128 + (hs div 64) mod 64), char_of (128 + hs mod 64)])"
| "high_surrogate bs = []"

fun utf16_take :: "nat \<Rightarrow> string \<Rightarrow> string" where
  "utf16_take 0 s = []"
| "utf16_take (Suc n) [] = []"
| "utf16_take (Suc n) (c # cs) =
     (if (of_char c :: nat) < 128 then c # utf16_take n cs
      else if (of_char c :: nat) < 224 then c # take 1 cs @ utf16_take n (drop 1 cs)
      else if (of_char c :: nat) < 240 then c # take 2 cs @ utf16_take n (drop 2 cs)
      else (case n of
              0 \<Rightarrow> high_surrogate (c # take 3 cs)
            | Suc m \<Rightarrow> c # take 3 cs @ utf16_take m (drop 3 cs)))"

text \<open>\<open>v[0]\<close>: the first element of an array, the first code unit of a string.\<close>

fun get_first :: "jsval \<Rightarrow> js_error + jsval" where
  "get_first JUndefined = Inl (TypeError ''Cannot read properties of undefined (reading 0)'')"
| "get_first JNull = Inl (TypeError ''Cannot read properties of null (reading 0)'')"
| "get_first (JArr xs) = Inr (case xs of [] \<Rightarrow> JUndefined | x # _ \<Rightarrow> x)"
| "get_first (JStr s) = Inr (case s of [] \<Rightarrow> JUndefined | c # _ \<Rightarrow> JStr (utf16_take 1 s))"
| "get_first (JObj kvs) = Inr (lookup kvs ''0'')"
| "get_first v = Inr JUndefined"

text \<open>
  Decimal digits of a number, for the string conversion that \<open>+\<close> applies. (From
  \<open>10\<^sup>2\<^sup>1\<close> on, JavaScript prints a number with an exponent; the model prints the
  digits throughout.)
\<close>

fun show_nat :: "nat \<Rightarrow> string" where
  "show_nat n =
     (if n < 10 then [char_of (48 + n)]
      else show_nat (n div 10) @ [char_of (48 + n mod 10)])"

definition show_int :: "int \<Rightarrow> string" where
  "show_int i = (if i < 0 then CHR ''-'' # show_nat (nat (- i)) else show_nat (nat i))"

fun join :: "string \<Rightarrow> string list \<Rightarrow> string" where
  "join sep [] = []"
| "join sep [s] = s"
| "join sep (s # t # ss) = s @ sep @ join sep (t # ss)"

text \<open>
  \<open>String(v)\<close>. An array joins its elements with commas, \<open>null\<close> and \<open>undefined\<close>
  elements giving the empty string.
\<close>

fun to_string :: "jsval \<Rightarrow> string" where
  "to_string JUndefined = ''undefined''"
| "to_string JNull = ''null''"
| "to_string (JBool b) = (if b then ''true'' else ''false'')"
| "to_string (JNum n) = show_int n"
| "to_string (JStr s) = s"
| "to_string (JArr xs) =
     join '','' (map (\<lambda>x. if x = JUndefined \<or> x = JNull then [] else to_string x) xs)"
| "to_string (JObj kvs) = ''[object Object]''"

text \<open>
  \<open>n + 1\<close> on doubles, for a double \<open>n\<close> whose value is an integer. The sum is exact
  as long as it is at most \<open>2\<^sup>5\<^sup>3\<close> in magnitude. Beyond that the doubles are the even
  integers (up to \<open>2\<^sup>5\<^sup>4\<close>) and then sparser still, and the sum is rounded to the nearest
  double, a tie going to the one with the even significand: the result is \<open>n\<close> again,
  or \<open>n + 2\<close>.
\<close>

definition plus_one :: "int \<Rightarrow> int" where
  "plus_one n =
     (if - (2 ^ 53) \<le> n \<and> n < 2 ^ 53 then n + 1
      else if \<bar>n\<bar> < 2 ^ 54 \<and> n mod 4 = 2 then n + 2
      else n)"

text \<open>
  \<open>(v || 0) + 1\<close>. A falsy \<open>v\<close> (\<open>undefined\<close>, \<open>null\<close>, \<open>false\<close>, \<open>0\<close>, the empty
  string) is replaced by \<open>0\<close> and so never reaches the addition; of the truthy
  values, a number is added to, \<open>true\<close> counts as \<open>1\<close>, and a string, an array or an
  object is turned into a string and has \<open>1\<close> appended.
\<close>

definition or_zero_plus_one :: "jsval \<Rightarrow> jsval" where
  "or_zero_plus_one v =
     (case js_or v (JNum 0) of
        JNum n \<Rightarrow> JNum (plus_one n)
      | JBool b \<Rightarrow> JNum ((if b then 1 else 0) + 1)
      | w \<Rightarrow> JStr (to_string w @ ''1''))"

text \<open>
  The number a string denotes, for a string that is an optional sign and decimal
  digits (surrounding white space ignored; the empty string denotes \<open>0\<close>). Every
  other string is given no value here, which stands for \<open>NaN\<close>; this leaves out the
  strings that JavaScript reads as a number in another notation (a fraction, an
  exponent, a hexadecimal, octal or binary literal, \<open>Infinity\<close>). The usage records
  that \<open>saveUsage\<close> writes hold numbers only, and the theorems below use the
  conversion on numbers only.
\<close>

fun digits_value :: "string \<Rightarrow> nat \<Rightarrow> nat option" where
  "digits_value [] acc = Some acc"
| "digits_value (c # cs) acc =
     (if 48 \<le> (of_char c :: nat) \<and> (of_char c :: nat) \<le> 57
      then digits_value cs (10 * acc + (of_char c - 48))
      else None)"

text \<open>
  \<open>trim()\<close> removes white space and line terminators at both ends. These are the
  characters U+0009 to U+000D and U+0020 (one byte each), U+00A0 (two bytes), and
  U+1680, U+2000 to U+200A, U+2028, U+2029, U+202F, U+205F, U+3000 and U+FEFF (three
  bytes each). \<open>trimEnd_rev\<close> works on the reversed string.
\<close>

definition white1 :: "char \<Rightarrow> bool" where
  "white1 a = (of_char a \<in> {9, 10, 11, 12, 13, 32 :: nat})"

definition white2 :: "char \<Rightarrow> char \<Rightarrow> bool" where
  "white2 a b = (a = CHR 0xC2 \<and> b = CHR 0xA0)"

definition white3 :: "char \<Rightarrow> char \<Rightarrow> char \<Rightarrow> bool" where
  "white3 a b c =
     ((a = CHR 0xE1 \<and> b = CHR 0x9A \<and> c = CHR 0x80) \<or>
      (a = CHR 0xE2 \<and> b = CHR 0x80 \<and>
         ((128 \<le> (of_char c :: nat) \<and> (of_char c :: nat) \<le> 138) \<or>
          c = CHR 0xA8 \<or> c = CHR 0xA9 \<or> c = CHR 0xAF)) \<or>
      (a = CHR 0xE2 \<and> b = CHR 0x81 \<and> c = CHR 0x9F) \<or>
      (a = CHR 0xE3 \<and> b = CHR 0x80 \<and> c = CHR 0x80) \<or>
      (a = CHR 0xEF \<and> b = CHR 0xBB \<and> c = CHR 0xBF))"

fun trimStart :: "string \<Rightarrow> string" where
  "trimStart (a # b # c # s) =
     (if white1 a then trimStart (b # c # s)
      else if white2 a b then trimStart (c # s)
      else if white3 a b c then trimStart s
      else a # b # c # s)"
| "trimStart [a, b] =
     (if white1 a then trimStart [b] else if white2 a b then [] else [a, b])"
| "trimStart [a] = (if white1 a then [] else [a])"
| "trimStart [] = []"

fun trimEnd_rev :: "string \<Rightarrow> string" where
  "trimEnd_rev (c # b # a # s) =
     (if white1 c then trimEnd_rev (b # a # s)
      else if white2 b c then trimEnd_rev (a # s)
      else if white3 a b c then trimEnd_rev s
      else c # b # a # s)"
| "trimEnd_rev [c, b] =
     (if white1 c then trimEnd_rev [b] else if white2 b c then [] else [c, b])"
| "trimEnd_rev [c] = (if white1 c then [] else [c])"
| "trimEnd_rev [] = []"

definition trim :: "string \<Rightarrow> string" where
  "trim s = rev (trimEnd_rev (rev (trimStart s)))"

definition string_to_number :: "string \<Rightarrow> int option" where
  "string_to_number s =
     (case trim s of
        [] \<Rightarrow> Some 0
      | c # cs \<Rightarrow>
          if c = CHR ''-'' \<and> cs \<noteq> [] then map_option (\<lambda>n. - int n) (digits_value cs 0)
          else if c = CHR ''+'' \<and> cs \<noteq> [] then map_option int (digits_value cs 0)
          else map_option int (digits_value (c # cs) 0))"

text \<open>\<open>Number(v)\<close>, with \<open>None\<close> for \<open>NaN\<close>.\<close>

fun to_number :: "jsval \<Rightarrow> int option" where
  "to_number JUndefined = None"
| "to_number JNull = Some 0"
| "to_number (JBool b) = Some (if b then 1 else 0)"
| "to_number (JNum n) = Some n"
| "to_number (JStr s) = string_to_number s"
| "to_number (JArr xs) = string_to_number (to_string (JArr xs))"
| "to_number (JObj kvs) = None"

text \<open>\<open>v >= m\<close> for a number \<open>m\<close>: false when \<open>v\<close> converts to \<open>NaN\<close>.\<close>

definition js_ge :: "jsval \<Rightarrow> int \<Rightarrow> bool" where
  "js_ge v m = (case to_number v of None \<Rightarrow> False | Some n \<Rightarrow> m \<le> n)"

section \<open>Browser storage\<close>

text \<open>
  \<open>localStorage\<close> maps keys to strings. The string under \<open>agentUsage\<close> is read with
  \<open>JSON.parse\<close> and written with \<open>JSON.stringify\<close>, so a stored string is classified by
  what \<open>JSON.parse\<close> makes of it: the empty string (falsy, never parsed), a text that
  is not JSON (\<open>JSON.parse\<close> throws), or the text of a JSON value, represented by that
  value. \<open>saveUsage\<close> stores the text of the record it is given.
\<close>

datatype stored = EmptyText | NotJson | JsonText jsval

type_synonym storage = "string \<rightharpoonup> stored"

definition getItem :: "storage \<Rightarrow> string \<Rightarrow> stored option" where
  "getItem ls k = ls k"

definition setItem :: "string \<Rightarrow> stored \<Rightarrow> storage \<Rightarrow> storage" where
  "setItem k v ls = ls(k \<mapsto> v)"

text \<open>The key under which the usage record is kept.\<close>

definition usage_key :: string where
  "usage_key = ''agentUsage''"

section \<open>Agents\<close>

text \<open>
  An entry of the table \<open>AGENTS\<close>. The \<open>config\<close> block of an entry is read nowhere
  in the program and is left out.
\<close>

record agent =
  agent_id :: string
  name :: string
  description :: string
  placeholder :: string
  systemPrompt :: string

definition MAX_CALLS_PER_DAY :: int where
  "MAX_CALLS_PER_DAY = 200"

definition emailRewriter :: agent where
  "emailRewriter = \<lparr>
     agent_id = ''emailRewriter'',
     name = ''Email Rewriter Agent'',
     description = ''Rewrites email body in professional tone and suggests subject line'',
     placeholder = ''Enter your email text to rewrite...'',
     systemPrompt =
       ''You are a professional email rewriter agent. Your task is to:\<newline>'' @
       ''1. Take the user's informal or draft email text\<newline>'' @
       ''2. Rewrite it in a professional, clear, and polite tone\<newline>'' @
       ''3. Suggest an appropriate subject line\<newline>'' @
       ''4. Maintain the original intent and key information\<newline>'' @
       ''\<newline>'' @
       ''Format your response as:\<newline>'' @
       ''## Suggested Subject\<newline>'' @
       ''[Your suggested subject line]\<newline>'' @
       ''\<newline>'' @
       ''## Rewritten Email\<newline>'' @
       ''[The professionally rewritten email body]\<newline>'' @
       ''\<newline>'' @
       ''## Key Changes Made\<newline>'' @
       ''- [List the main improvements you made]'' \<rparr>"

definition bauEstimate :: agent where
  "bauEstimate = \<lparr>
     agent_id = ''bauEstimate'',
     name = ''BAU Enhancement Estimate Agent'',
     description = ''Provides BAU enhancement estimates for development tasks'',
     placeholder = ''Describe the enhancement task to estimate...'',
     systemPrompt =
       ''You are a BAU (Business As Usual) Enhancement Estimation Agent for software development projects. Your task is to:\<newline>'' @
       ''1. Analyze the enhancement request provided by the user\<newline>'' @
       ''2. Break down the work into phases (Analysis, Development, Testing, Documentation)\<newline>'' @
       ''3. Provide effort estimates in hours for each phase\<newline>'' @
       ''4. Assess complexity (Low/Medium/High)\<newline>'' @
       ''5. List assumptions and risks\<newline>'' @
       ''\<newline>'' @
       ''Format your response as:\<newline>'' @
       ''## Task Analysis\<newline>'' @
       ''[Brief analysis of the enhancement request]\<newline>'' @
       ''\<newline>'' @
       ''## Estimation Breakdown\<newline>'' @
       ''| Phase | Effort (Hours) | Notes |\<newline>'' @
       ''|-------|----------------|-------|\<newline>'' @
       ''| Analysis | X-Y | [notes] |\<newline>'' @
       ''| Development | X-Y | [notes] |\<newline>'' @
       ''| Testing | X-Y | [notes] |\<newline>'' @
       ''| Documentation | X-Y | [notes] |\<newline>'' @
       ''| **Total** | **X-Y** | |\<newline>'' @
       ''\<newline>'' @
       ''## Complexity Assessment\<newline>'' @
       ''**Level:** [Low/Medium/High]\<newline>'' @
       ''**Justification:** [Why this complexity level]\<newline>'' @
       ''\<newline>'' @
       ''## Assumptions\<newline>'' @
       ''- [List key assumptions]\<newline>'' @
       ''\<newline>'' @
       ''## Risks\<newline>'' @
       ''- [List potential risks]'' \<rparr>"

definition AGENTS :: "agent list" where
  "AGENTS = [emailRewriter, bauEstimate]"

section \<open>Usage tracking\<close>

text \<open>
  \<open>getTodayKey()\<close> is the UTC date of the clock, \<open>YYYY-MM-DD\<close>; the functions below
  take it as the argument \<open>today\<close>. Each returns its result, or the exception it
  throws, together with the storage it leaves.

  \<open>getUsage\<close>: the stored record when there is one and its \<open>date\<close> is today's,
  otherwise a new record with zero counters. Only an object read from JSON has a
  \<open>date\<close> property, so the record returned is the list of properties of an object.
\<close>

fun own_properties :: "jsval \<Rightarrow> obj" where
  "own_properties (JObj kvs) = kvs"
| "own_properties v = []"

definition getUsage :: "string \<Rightarrow> storage \<Rightarrow> (js_error + obj) \<times> storage" where
  "getUsage today ls =
     (let reset = [(''date'', JStr today), (''emailRewriter'', JNum 0), (''bauEstimate'', JNum 0)]
      in case getItem ls usage_key of
           None \<Rightarrow> (Inr reset, ls)
         | Some EmptyText \<Rightarrow> (Inr reset, ls)
         | Some NotJson \<Rightarrow> (Inl (SyntaxError ''Unexpected token in JSON''), ls)
         | Some (JsonText data) \<Rightarrow>
             (case get_prop data ''date'' of
                Inl e \<Rightarrow> (Inl e, ls)
              | Inr d \<Rightarrow>
                  if d = JStr today then (Inr (own_properties data), ls)
                  else (Inr reset, ls)))"

definition saveUsage :: "obj \<Rightarrow> storage \<Rightarrow> storage" where
  "saveUsage usage ls = setItem usage_key (JsonText (JObj usage)) ls"

definition incrementUsage :: "string \<Rightarrow> string \<Rightarrow> storage \<Rightarrow> (js_error + obj) \<times> storage" where
  "incrementUsage today agentId ls =
     (case getUsage today ls of
        (Inl e, ls') \<Rightarrow> (Inl e, ls')
      | (Inr usage, ls') \<Rightarrow>
          (let usage' = AList.update agentId (or_zero_plus_one (lookup usage agentId)) usage
           in (Inr usage', saveUsage usage' ls')))"

section \<open>The proxy\<close>

text \<open>
  The outside world as the proxy (\<open>server.js\<close>) meets it. A \<open>fetch\<close> either rejects
  (the host cannot be reached; the exception carries the runtime's message) or
  resolves to a response. Of a response the proxy reads the status (\<open>response.ok\<close>
  is a status from 200 to 299), the body as text (\<open>response.text()\<close>) and the body as
  JSON (\<open>response.json()\<close>, which throws when the text is not JSON: \<open>json = None\<close>).
  Console output is not modelled.
\<close>

record response =
  status :: nat
  body_text :: string
  json :: "jsval option"

definition ok :: "response \<Rightarrow> bool" where
  "ok r = (200 \<le> status r \<and> status r \<le> 299)"

datatype fetch_result = Rejected string | Resolved response

text \<open>
  The request sent to the chat-completion endpoint. \<open>wx_bearer\<close> is the token that is
  interpolated into the \<open>Authorization\<close> header.
\<close>

record wx_request =
  wx_url :: string
  wx_bearer :: jsval
  wx_model_id :: string
  wx_project_id :: string
  wx_messages :: "jsval list"
  wx_max_tokens :: nat
  wx_temperature :: rat
  wx_top_p :: rat

text \<open>
  The two upstream endpoints: the identity provider, as a function of the API key that
  is interpolated into the form it is sent, and the chat-completion endpoint.
\<close>

record world =
  iam :: "jsval \<Rightarrow> fetch_result"
  watsonx :: "wx_request \<Rightarrow> fetch_result"

text \<open>An outbound call, recorded in the order in which the proxy makes it.\<close>

datatype outbound = TokenExchange jsval | ChatCompletion wx_request

text \<open>The values read from the process environment at start, with their defaults.\<close>

record config =
  WATSONX_PROJECT_ID :: string
  WATSONX_URL :: string

definition default_config :: config where
  "default_config = \<lparr>
     WATSONX_PROJECT_ID = ''91146e4b-59e0-4c04-a826-2731457dd287'',
     WATSONX_URL = ''https://us-south.ml.cloud.ibm.com'' \<rparr>"

text \<open>
  What the proxy answers: the status and the JSON body. \<open>res.json(o)\<close> serialises
  \<open>o\<close>, and serialisation drops the properties whose value is \<open>undefined\<close>.
\<close>

record reply =
  code :: nat
  payload :: jsval

definition res_json :: "nat \<Rightarrow> obj \<Rightarrow> reply" where
  "res_json c kvs = \<lparr> code = c, payload = JObj (filter (\<lambda>kv. snd kv \<noteq> JUndefined) kvs) \<rparr>"

fun and_then :: "'e + 'a \<Rightarrow> ('a \<Rightarrow> 'e + 'b) \<Rightarrow> 'e + 'b" where
  "and_then (Inl e) f = Inl e"
| "and_then (Inr x) f = f x"

text \<open>\<open>response.json()\<close>.\<close>

definition response_json :: "response \<Rightarrow> js_error + jsval" where
  "response_json r =
     (case json r of
        None \<Rightarrow> Inl (SyntaxError ''Unexpected token in JSON'')
      | Some v \<Rightarrow> Inr v)"

text \<open>\<open>getIAMToken\<close>: one POST to the identity provider; no cache.\<close>

definition getIAMToken :: "world \<Rightarrow> jsval \<Rightarrow> (js_error + jsval) \<times> outbound list" where
  "getIAMToken w apiKey =
     (case iam w apiKey of
        Rejected m \<Rightarrow> (Inl (TypeError m), [TokenExchange apiKey])
      | Resolved r \<Rightarrow>
          if \<not> ok r then (Inl (Error (''IAM token error: '' @ body_text r)), [TokenExchange apiKey])
          else (and_then (response_json r) (\<lambda>data. get_prop data ''access_token''),
                [TokenExchange apiKey]))"

text \<open>
  \<open>const { ... } = req.body\<close> reads the properties of the body and throws on a body
  that is \<open>undefined\<close> or \<open>null\<close>. \<open>Array.isArray\<close> and the elements that
  \<open>...messages\<close> spreads:
\<close>

fun is_array :: "jsval \<Rightarrow> bool" where
  "is_array (JArr xs) = True"
| "is_array v = False"

fun elements :: "jsval \<Rightarrow> jsval list" where
  "elements (JArr xs) = xs"
| "elements v = []"

text \<open>\<open>error.error?.message\<close>: \<open>undefined\<close> when \<open>error.error\<close> is \<open>null\<close> or \<open>undefined\<close>.\<close>

definition optional_message :: "jsval \<Rightarrow> js_error + jsval" where
  "optional_message v =
     (if v = JUndefined \<or> v = JNull then Inr JUndefined else get_prop v ''message'')"

definition chat_request :: "config \<Rightarrow> jsval \<Rightarrow> jsval \<Rightarrow> jsval \<Rightarrow> wx_request" where
  "chat_request cfg token prompt msgs = \<lparr>
     wx_url = WATSONX_URL cfg @ ''/ml/v1/text/chat?version=2024-05-01'',
     wx_bearer = token,
     wx_model_id = ''ibm/granite-3-8b-instruct'',
     wx_project_id = WATSONX_PROJECT_ID cfg,
     wx_messages =
       JObj [(''role'', JStr ''system''),
             (''content'', js_or prompt (JStr ''You are a helpful assistant.''))]
       # elements msgs,
     wx_max_tokens = 2048,
     wx_temperature = 7 / 10,
     wx_top_p = 9 / 10 \<rparr>"

text \<open>
  The body of the \<open>try\<close> block of \<open>POST /api/watsonx/chat\<close>: the reply it sends, or
  the exception that leaves it, and the outbound calls made on the way.
\<close>

definition chat_try :: "config \<Rightarrow> world \<Rightarrow> jsval \<Rightarrow> (js_error + reply) \<times> outbound list" where
  "chat_try cfg w body =
     (case and_then (get_prop body ''apiKey'') (\<lambda>apiKey.
           and_then (get_prop body ''messages'') (\<lambda>msgs.
           and_then (get_prop body ''systemPrompt'') (\<lambda>prompt.
             Inr (apiKey, msgs, prompt)))) of
        Inl e \<Rightarrow> (Inl e, [])
      | Inr (apiKey, msgs, prompt) \<Rightarrow>
          if \<not> truthy apiKey then
            (Inr (res_json 400 [(''error'', JStr ''API key is required'')]), [])
          else if \<not> truthy msgs \<or> \<not> is_array msgs then
            (Inr (res_json 400 [(''error'', JStr ''Messages array is required'')]), [])
          else
            (case getIAMToken w apiKey of
               (Inl e, calls) \<Rightarrow> (Inl e, calls)
             | (Inr token, calls) \<Rightarrow>
                 (let req = chat_request cfg token prompt msgs;
                      calls' = calls @ [ChatCompletion req]
                  in case watsonx w req of
                       Rejected m \<Rightarrow> (Inl (TypeError m), calls')
                     | Resolved r \<Rightarrow>
                         if \<not> ok r then
                           (and_then (response_json r) (\<lambda>error.
                            and_then (get_prop error ''error'') (\<lambda>inner.
                            and_then (optional_message inner) (\<lambda>m1.
                            and_then (get_prop error ''message'') (\<lambda>m2.
                              Inr (res_json (status r)
                                     [(''error'',
                                       js_or (js_or m1 m2) (JStr ''WatsonX API call failed''))]))))),
                            calls')
                         else
                           (and_then (response_json r) (\<lambda>data.
                            and_then (get_prop data ''choices'') (\<lambda>choices.
                            and_then (get_first choices) (\<lambda>choice.
                            and_then (get_prop choice ''message'') (\<lambda>msg.
                            and_then (get_prop msg ''content'') (\<lambda>content.
                            and_then (get_prop data ''usage'') (\<lambda>usage.
                              Inr (res_json 200 [(''content'', content), (''usage'', usage)]))))))),
                            calls'))))"

text \<open>The handler: the \<open>catch\<close> turns an exception into a 500 that carries its message.\<close>

definition chat_handler :: "config \<Rightarrow> world \<Rightarrow> jsval \<Rightarrow> reply \<times> outbound list" where
  "chat_handler cfg w body =
     (case chat_try cfg w body of
        (Inl error, calls) \<Rightarrow> (res_json 500 [(''error'', JStr (message error))], calls)
      | (Inr r, calls) \<Rightarrow> (r, calls))"



section \<open>The chat client\<close>

text \<open>
  A turn of a conversation, \<open>{role, content}\<close>. The content of an assistant turn is
  what the proxy's reply holds under \<open>content\<close>, whatever value that is.
\<close>

record turn =
  role :: string
  content :: jsval

text \<open>
  The body that \<open>callWatsonX\<close> posts to \<open>/api/watsonx/chat\<close>, and what the client
  does once the \<open>fetch\<close> has settled: a reply that is not ok becomes an exception that
  carries the reply's \<open>error\<close>, an ok reply gives its \<open>content\<close>.
\<close>

record chat_call =
  call_apiKey :: string
  call_systemPrompt :: string
  call_messages :: "turn list"



text \<open>
  The state of the component \<open>AgentChat\<close>: its four state variables and the ref
  \<open>conversationHistory\<close>.
\<close>

record chat =
  messages :: "turn list"
  input :: string
  isLoading :: bool
  error :: string
  conversationHistory :: "turn list"

definition new_chat :: chat where
  "new_chat = \<lparr> messages = [], input = [], isLoading = False, error = [], conversationHistory = [] \<rparr>"

text \<open>The effect that runs when the component is mounted and when its agent changes.\<close>

definition agent_changed :: "agent \<Rightarrow> chat \<Rightarrow> chat" where
  "agent_changed agent c =
     c\<lparr> conversationHistory := [],
        messages := [\<lparr> role = ''assistant'',
                       content = JStr (''Hello! I'm the '' @ name agent @ ''. '' @ description agent @
                                       ''. How can I help you today?'') \<rparr>],
        error := [] \<rparr>"





text \<open>
  \<open>handleSubmit\<close> is asynchronous. What it has captured when it suspends at its
  \<open>await\<close> (the agent and \<open>userMessage\<close>, the trimmed input) is kept with what it waits for: the
  reply of the proxy, or the timer of demo mode.
\<close>

datatype awaited = AwaitReply | AwaitTimer

record suspended =
  for_agent :: agent
  userMessage :: string
  waits_for :: awaited

text \<open>
  The state of the page once the user is logged in: the browser storage, the three
  state variables of \<open>Dashboard\<close>, the state of \<open>AgentChat\<close> (which is rendered only
  while an agent is active), and the suspended \<open>handleSubmit\<close>, if any.
\<close>

record app =
  localStorage :: storage
  activeAgent :: "agent option"
  usage :: obj
  apiKey :: string
  chat :: chat
  pending :: "suspended option"

text \<open>What a handler does to the outside: a dialog, a request to the proxy, a timer.\<close>

datatype effect = Alert string | ChatRequest chat_call | Timeout nat | Uncaught js_error

text \<open>
  \<open>handleSelectAgent\<close>. \<open>setActiveAgent\<close> makes React render \<open>AgentChat\<close> for the new
  agent, with new state if no agent was active before, and run its agent-change effect.
\<close>

definition handleSelectAgent :: "string \<Rightarrow> agent \<Rightarrow> app \<Rightarrow> app \<times> effect list" where
  "handleSelectAgent today agent a =
     (if map_option agent_id (activeAgent a) = Some (agent_id agent) then (a, [])
      else
        (case getUsage today (localStorage a) of
           (Inl e, ls) \<Rightarrow> (a\<lparr> localStorage := ls \<rparr>, [Uncaught e])
         | (Inr currentUsage, ls) \<Rightarrow>
             if js_ge (js_or (lookup currentUsage (agent_id agent)) (JNum 0)) MAX_CALLS_PER_DAY then
               (a\<lparr> localStorage := ls \<rparr>,
                [Alert (''Daily limit of '' @ show_int MAX_CALLS_PER_DAY @ '' calls reached for '' @
                        name agent)])
             else
               (a\<lparr> localStorage := ls,
                   activeAgent := Some agent,
                   chat := agent_changed agent
                             (case activeAgent a of None \<Rightarrow> new_chat | Some previous \<Rightarrow> chat a) \<rparr>,
                [])))"

text \<open>\<open>handleIncrement\<close>, the \<open>onIncrement\<close> that \<open>AgentChat\<close> is given.\<close>

definition handleIncrement :: "string \<Rightarrow> string \<Rightarrow> app \<Rightarrow> js_error + app" where
  "handleIncrement today agentId a =
     (case incrementUsage today agentId (localStorage a) of
        (Inl e, ls) \<Rightarrow> Inl e
      | (Inr newUsage, ls) \<Rightarrow> Inr (a\<lparr> localStorage := ls, usage := newUsage \<rparr>))"


text \<open>\<open>slice(-10)\<close>, applied when the history has more than ten turns.\<close>

definition keep_last_10 :: "turn list \<Rightarrow> turn list" where
  "keep_last_10 h = (if length h > 10 then drop (length h - 10) h else h)"






section \<open>Example inputs\<close>


definition completion :: "jsval \<Rightarrow> jsval" where
  "completion c =
     JObj [(''id'', JStr ''chatcmpl-1''),
           (''choices'',
            JArr [JObj [(''index'', JNum 0),
                        (''message'', JObj [(''role'', JStr ''assistant''), (''content'', c)]),
                        (''finish_reason'', JStr ''stop'')]]),
           (''usage'', JObj [(''prompt_tokens'', JNum 12), (''completion_tokens'', JNum 7),
                             (''total_tokens'', JNum 19)])]"

definition answering_world :: "jsval \<Rightarrow> world" where
  "answering_world c = \<lparr>
     iam = (\<lambda>k. Resolved \<lparr> status = 200, body_text = [],
                            json = Some (JObj [(''access_token'', JStr ''token-1'')]) \<rparr>),
     watsonx = (\<lambda>req. Resolved \<lparr> status = 200, body_text = [], json = Some (completion c) \<rparr>) \<rparr>"

definition example_request :: jsval where
  "example_request =
     JObj [(''apiKey'', JStr ''key-1''),
           (''systemPrompt'', JStr ''Be brief.''),
           (''messages'', JArr [JObj [(''role'', JStr ''user''), (''content'', JStr ''hello'')]])]"

text \<open>A page on 2 January 2026 on which the e-mail agent has been called \<open>n\<close> times.\<close>

definition example_usage :: "int \<Rightarrow> obj" where
  "example_usage n =
     [(''date'', JStr ''2026-01-02''), (''emailRewriter'', JNum n), (''bauEstimate'', JNum 3)]"

definition example_app :: "int \<Rightarrow> agent option \<Rightarrow> string \<Rightarrow> app" where
  "example_app n active key = \<lparr>
     localStorage = setItem usage_key (JsonText (JObj (example_usage n))) Map.empty,
     activeAgent = active,
     usage = example_usage n,
     apiKey = key,
     chat = (case active of
               None \<Rightarrow> new_chat
             | Some agent \<Rightarrow> (agent_changed agent new_chat)\<lparr> input := ''can you send the report'' \<rparr>),
     pending = None \<rparr>"








section \<open>Properties of the usage tracker\<close>

lemma getItem_setItem [simp]:
  "getItem (setItem k v ls) k' = (if k' = k then Some v else getItem ls k')"
  by (simp add: getItem_def setItem_def)

lemma getItem_empty [simp]: "getItem Map.empty k = None"
  by (simp add: getItem_def)

lemma setItem_setItem [simp]: "setItem k v (setItem k w ls) = setItem k v ls"
  by (simp add: setItem_def)

lemma lookup_simps [simp]:
  "lookup [] k = JUndefined"
  "lookup ((k', v) # kvs) k = (if k' = k then v else lookup kvs k)"
  by (simp_all add: lookup_def)

lemma lookup_update [simp]:
  "lookup (AList.update k v kvs) k' = (if k' = k then v else lookup kvs k')"
  by (simp add: lookup_def update_conv')

text \<open>
  C1. When nothing is stored under the usage key, or the stored record is an object
  whose \<open>date\<close> is not today's, \<open>getUsage\<close> returns a record dated today in which
  the counter of every agent of \<open>AGENTS\<close> is \<open>0\<close>, whatever the stored counters were,
  and it leaves the storage as it found it.
\<close>

theorem getUsage_stale_resets:
  assumes "getItem ls usage_key = None \<or>
           (\<exists>kvs. getItem ls usage_key = Some (JsonText (JObj kvs)) \<and>
                  lookup kvs ''date'' \<noteq> JStr today)"
  shows "\<exists>u. getUsage today ls = (Inr u, ls) \<and> lookup u ''date'' = JStr today \<and>
             (\<forall>a \<in> set AGENTS. lookup u (agent_id a) = JNum 0)"
  using assms
  by (auto simp: getUsage_def AGENTS_def emailRewriter_def bauEstimate_def)

theorem getUsage_stale_resets_witness:
  "lookup [(''date'', JStr ''2026-01-01''), (''emailRewriter'', JNum 57), (''bauEstimate'', JNum 200)] ''date''
     \<noteq> JStr ''2026-01-02'' \<and>
   emailRewriter \<in> set AGENTS \<and>
   (\<exists>u. getUsage ''2026-01-02''
          (setItem usage_key
             (JsonText (JObj [(''date'', JStr ''2026-01-01''), (''emailRewriter'', JNum 57),
                              (''bauEstimate'', JNum 200)])) Map.empty)
        = (Inr u,
           setItem usage_key
             (JsonText (JObj [(''date'', JStr ''2026-01-01''), (''emailRewriter'', JNum 57),
                              (''bauEstimate'', JNum 200)])) Map.empty) \<and>
        lookup u ''date'' = JStr ''2026-01-02'' \<and>
        lookup u (agent_id emailRewriter) = JNum 0)"
proof -
  let ?kvs = "[(''date'', JStr ''2026-01-01''), (''emailRewriter'', JNum 57), (''bauEstimate'', JNum 200)]"
  let ?ls = "setItem usage_key (JsonText (JObj ?kvs)) Map.empty"
  have stale: "lookup ?kvs ''date'' \<noteq> JStr ''2026-01-02''"
    by simp
  have mem: "emailRewriter \<in> set AGENTS"
    by (simp add: AGENTS_def)
  have "getItem ?ls usage_key = None \<or>
        (\<exists>kvs. getItem ?ls usage_key = Some (JsonText (JObj kvs)) \<and>
               lookup kvs ''date'' \<noteq> JStr ''2026-01-02'')"
    using stale by simp
  from getUsage_stale_resets [OF this] obtain u where
    u: "getUsage ''2026-01-02'' ?ls = (Inr u, ?ls)" "lookup u ''date'' = JStr ''2026-01-02''"
       "\<forall>a \<in> set AGENTS. lookup u (agent_id a) = JNum 0"
    by blast
  from u(3) mem have "lookup u (agent_id emailRewriter) = JNum 0"
    by blast
  with stale mem u(1,2) show ?thesis
    by blast
qed


text \<open>At \<open>2\<^sup>5\<^sup>3\<close> the addition of doubles no longer moves the number.\<close>

lemma plus_one_saturates: "plus_one (2 ^ 53) = 2 ^ 53"
  by (simp add: plus_one_def)

lemma or_zero_plus_one_num:
  "js_or v (JNum 0) = JNum n \<Longrightarrow> or_zero_plus_one v = JNum (plus_one n)"
  by (simp add: or_zero_plus_one_def)

lemma getUsage_current:
  assumes "getItem ls usage_key = Some (JsonText (JObj kvs))" and "lookup kvs ''date'' = JStr today"
  shows "getUsage today ls = (Inr kvs, ls)"
  using assms by (simp add: getUsage_def)

lemma incrementUsage_current:
  assumes "getItem ls usage_key = Some (JsonText (JObj kvs))" and "lookup kvs ''date'' = JStr today"
  shows "incrementUsage today k ls =
           (Inr (AList.update k (or_zero_plus_one (lookup kvs k)) kvs),
            setItem usage_key
              (JsonText (JObj (AList.update k (or_zero_plus_one (lookup kvs k)) kvs))) ls)"
  using getUsage_current [OF assms] by (simp add: incrementUsage_def saveUsage_def Let_def)

lemma or_zero_plus_one_JNum [simp]: "or_zero_plus_one (JNum m) = JNum (plus_one m)"
  by (simp add: or_zero_plus_one_def js_or_def plus_one_def)

lemma agent_id_not_date: "a \<in> set AGENTS \<Longrightarrow> agent_id a \<noteq> ''date''"
  by (auto simp: AGENTS_def emailRewriter_def bauEstimate_def)

text \<open>
  C2. Let the stored record be today's and let \<open>n\<close> be the count of an agent of
  \<open>AGENTS\<close> in it, read as the code reads it (\<open>usage[agentId] || 0\<close>), a number in the
  range in which the addition of doubles is exact for both calls
  (\<open>-2\<^sup>5\<^sup>3 \<le> n\<close> and \<open>n + 2 \<le> 2\<^sup>5\<^sup>3\<close>). One call of \<open>incrementUsage\<close> for that agent
  returns a record in which the agent's counter is \<open>n + 1\<close>, the \<open>date\<close> and every
  other property are as before, and stores exactly that record. A second call gives
  \<open>n + 2\<close>, again with every other property as at the start.
\<close>

theorem incrementUsage_adds_one:
  assumes "a \<in> set AGENTS"
    and "getItem ls usage_key = Some (JsonText (JObj kvs))"
    and "lookup kvs ''date'' = JStr today"
    and "js_or (lookup kvs (agent_id a)) (JNum 0) = JNum n"
    and "- (2 ^ 53) \<le> n" and "n + 2 \<le> 2 ^ 53"
  shows "\<exists>u1 ls1 u2 ls2.
           incrementUsage today (agent_id a) ls = (Inr u1, ls1) \<and>
           lookup u1 (agent_id a) = JNum (n + 1) \<and>
           lookup u1 ''date'' = JStr today \<and>
           (\<forall>k. k \<noteq> agent_id a \<longrightarrow> lookup u1 k = lookup kvs k) \<and>
           ls1 = setItem usage_key (JsonText (JObj u1)) ls \<and>
           incrementUsage today (agent_id a) ls1 = (Inr u2, ls2) \<and>
           lookup u2 (agent_id a) = JNum (n + 2) \<and>
           lookup u2 ''date'' = JStr today \<and>
           (\<forall>k. k \<noteq> agent_id a \<longrightarrow> lookup u2 k = lookup kvs k) \<and>
           ls2 = setItem usage_key (JsonText (JObj u2)) ls"
proof -
  let ?k = "agent_id a"
  let ?u1 = "AList.update ?k (JNum (n + 1)) kvs"
  let ?ls1 = "setItem usage_key (JsonText (JObj ?u1)) ls"
  let ?u2 = "AList.update ?k (JNum (n + 2)) ?u1"
  let ?ls2 = "setItem usage_key (JsonText (JObj ?u2)) ls"
  have nd: "?k \<noteq> ''date''"
    using assms(1) by (rule agent_id_not_date)
  have exact: "plus_one n = n + 1" "plus_one (n + 1) = n + 2"
    using assms(5,6) by (simp_all add: plus_one_def)
  have first: "incrementUsage today ?k ls = (Inr ?u1, ?ls1)"
    using incrementUsage_current [OF assms(2,3), of ?k] or_zero_plus_one_num [OF assms(4)] exact(1)
    by simp
  have date1: "lookup ?u1 ''date'' = JStr today"
    using nd assms(3) by simp
  have "getItem ?ls1 usage_key = Some (JsonText (JObj ?u1))"
    by simp
  from incrementUsage_current [OF this date1, of ?k]
  have second: "incrementUsage today ?k ?ls1 = (Inr ?u2, ?ls2)"
    using exact(2) by simp
  have date2: "lookup ?u2 ''date'' = JStr today"
    using nd assms(3) by simp
  show ?thesis
    using first second date1 date2 by simp
qed

theorem incrementUsage_adds_one_witness:
  "emailRewriter \<in> set AGENTS \<and>
   (\<exists>u1 u2 ls2.
      incrementUsage ''2026-01-02'' ''emailRewriter''
        (setItem usage_key
           (JsonText (JObj [(''date'', JStr ''2026-01-02''), (''emailRewriter'', JNum 57),
                            (''bauEstimate'', JNum 200)])) Map.empty)
        = (Inr u1, setItem usage_key (JsonText (JObj u1)) Map.empty) \<and>
      lookup u1 ''emailRewriter'' = JNum 58 \<and>
      lookup u1 ''bauEstimate'' = JNum 200 \<and>
      incrementUsage ''2026-01-02'' ''emailRewriter''
        (setItem usage_key (JsonText (JObj u1)) Map.empty) = (Inr u2, ls2) \<and>
      lookup u2 ''emailRewriter'' = JNum 59 \<and>
      lookup u2 ''bauEstimate'' = JNum 200 \<and>
      lookup u2 ''date'' = JStr ''2026-01-02'')"
proof -
  let ?kvs = "[(''date'', JStr ''2026-01-02''), (''emailRewriter'', JNum 57), (''bauEstimate'', JNum 200)]"
  let ?ls = "setItem usage_key (JsonText (JObj ?kvs)) Map.empty"
  have mem: "emailRewriter \<in> set AGENTS"
    by (simp add: AGENTS_def)
  have id: "agent_id emailRewriter = ''emailRewriter''"
    by (simp add: emailRewriter_def)
  have stored: "getItem ?ls usage_key = Some (JsonText (JObj ?kvs))"
    by simp
  have today: "lookup ?kvs ''date'' = JStr ''2026-01-02''"
    by simp
  have count: "js_or (lookup ?kvs (agent_id emailRewriter)) (JNum 0) = JNum 57"
    by (simp add: id js_or_def)
  have range: "- (2 ^ 53) \<le> (57 :: int)" "(57 :: int) + 2 \<le> 2 ^ 53"
    by simp_all
  from incrementUsage_adds_one [OF mem stored today count range]
  obtain u1 ls1 u2 ls2 where
    r: "incrementUsage ''2026-01-02'' (agent_id emailRewriter) ?ls = (Inr u1, ls1)"
       "lookup u1 (agent_id emailRewriter) = JNum (57 + 1)"
       "\<forall>k. k \<noteq> agent_id emailRewriter \<longrightarrow> lookup u1 k = lookup ?kvs k"
       "ls1 = setItem usage_key (JsonText (JObj u1)) ?ls"
       "incrementUsage ''2026-01-02'' (agent_id emailRewriter) ls1 = (Inr u2, ls2)"
       "lookup u2 (agent_id emailRewriter) = JNum (57 + 2)"
       "lookup u2 ''date'' = JStr ''2026-01-02''"
       "\<forall>k. k \<noteq> agent_id emailRewriter \<longrightarrow> lookup u2 k = lookup ?kvs k"
    by blast
  have "lookup u1 ''bauEstimate'' = JNum 200" "lookup u2 ''bauEstimate'' = JNum 200"
    using r(3,8) by (simp_all add: id)
  moreover have "ls1 = setItem usage_key (JsonText (JObj u1)) Map.empty"
    using r(4) by simp
  ultimately show ?thesis
    using mem r(1,2,5,6,7) unfolding id by auto
qed

section \<open>Properties of the proxy\<close>

lemma res_json_error [simp]:
  "res_json c [(k, JStr s)] = \<lparr> code = c, payload = JObj [(k, JStr s)] \<rparr>"
  by (simp add: res_json_def)

lemma get_prop_other:
  "get_prop body k = Inr v \<Longrightarrow> \<exists>p. get_prop body k' = Inr p"
  by (cases body) simp_all

lemma getIAMToken_calls: "snd (getIAMToken w k) = [TokenExchange k]"
  by (simp add: getIAMToken_def split: fetch_result.splits)

lemma getIAMToken_pair: "getIAMToken w k = (fst (getIAMToken w k), [TokenExchange k])"
  by (metis getIAMToken_calls prod.collapse)

lemma getIAMToken_success:
  "fst (getIAMToken w k) = Inr token \<Longrightarrow> getIAMToken w k = (Inr token, [TokenExchange k])"
  using getIAMToken_pair [of w k] by simp



text \<open>
  C3. A request to \<open>POST /api/watsonx/chat\<close> whose body has no truthy \<open>apiKey\<close>
  (a missing one reads as \<open>undefined\<close>), or whose \<open>messages\<close> is not an array (a
  missing one is not), is answered with status 400, and no outbound call is made:
  neither the token exchange nor the chat completion.
\<close>

theorem chat_rejects_malformed:
  assumes "get_prop body ''apiKey'' = Inr key"
    and "get_prop body ''messages'' = Inr msgs"
    and "\<not> truthy key \<or> \<not> is_array msgs"
  shows "code (fst (chat_handler cfg w body)) = 400 \<and> snd (chat_handler cfg w body) = []"
proof -
  obtain p where "get_prop body ''systemPrompt'' = Inr p"
    using get_prop_other [OF assms(1)] by blast
  with assms show ?thesis
    by (auto simp: chat_handler_def chat_try_def)
qed

theorem chat_rejects_malformed_witness:
  "get_prop (JObj [(''messages'', JArr [])]) ''apiKey'' = Inr JUndefined \<and>
   \<not> truthy JUndefined \<and>
   code (fst (chat_handler default_config (answering_world (JStr ''hi''))
                (JObj [(''messages'', JArr [])]))) = 400 \<and>
   snd (chat_handler default_config (answering_world (JStr ''hi'')) (JObj [(''messages'', JArr [])])) = []"
proof -
  let ?body = "JObj [(''messages'', JArr [])]"
  have k: "get_prop ?body ''apiKey'' = Inr JUndefined"
    by simp
  have m: "get_prop ?body ''messages'' = Inr (JArr [])"
    by simp
  have bad: "\<not> truthy JUndefined \<or> \<not> is_array (JArr [])"
    by simp
  from chat_rejects_malformed [OF k m bad, of default_config "answering_world (JStr ''hi'')"] k
  show ?thesis by simp
qed

text \<open>
  What the \<open>try\<close> block does with a request that passes the two checks: the token
  exchange, then the chat completion.
\<close>

lemma chat_try_valid:
  assumes "get_prop body ''apiKey'' = Inr key" and "truthy key"
    and "get_prop body ''messages'' = Inr msgs" and "is_array msgs"
    and "get_prop body ''systemPrompt'' = Inr prompt"
  shows "chat_try cfg w body =
     (case getIAMToken w key of
        (Inl e, calls) \<Rightarrow> (Inl e, calls)
      | (Inr token, calls) \<Rightarrow>
          (let req = chat_request cfg token prompt msgs;
               calls' = calls @ [ChatCompletion req]
           in case watsonx w req of
                Rejected m \<Rightarrow> (Inl (TypeError m), calls')
              | Resolved r \<Rightarrow>
                  if \<not> ok r then
                    (and_then (response_json r) (\<lambda>err.
                     and_then (get_prop err ''error'') (\<lambda>inner.
                     and_then (optional_message inner) (\<lambda>m1.
                     and_then (get_prop err ''message'') (\<lambda>m2.
                       Inr (res_json (status r)
                              [(''error'', js_or (js_or m1 m2) (JStr ''WatsonX API call failed''))]))))),
                     calls')
                  else
                    (and_then (response_json r) (\<lambda>data.
                     and_then (get_prop data ''choices'') (\<lambda>choices.
                     and_then (get_first choices) (\<lambda>choice.
                     and_then (get_prop choice ''message'') (\<lambda>msg.
                     and_then (get_prop msg ''content'') (\<lambda>c.
                     and_then (get_prop data ''usage'') (\<lambda>u.
                       Inr (res_json 200 [(''content'', c), (''usage'', u)]))))))),
                     calls')))"
proof -
  have "truthy msgs"
    using assms(4) by (cases msgs) simp_all
  with assms show ?thesis
    by (simp add: chat_try_def)
qed




text \<open>
  C5. For a request that passes the two checks, when the token exchange returns a
  token and the chat-completion endpoint answers with an ok status and a JSON object
  whose \<open>choices\<close> is an array that starts with an object whose \<open>message\<close> is an
  object, the proxy answers with status 200 and a body whose \<open>content\<close> is that
  message's \<open>content\<close>, whose \<open>usage\<close> is the \<open>usage\<close> of the upstream body, and which
  has no other property. The outbound calls are the token exchange and one chat
  completion.
\<close>

theorem chat_success_extracts_content:
  assumes "get_prop body ''apiKey'' = Inr key" and "truthy key"
    and "get_prop body ''messages'' = Inr msgs" and "is_array msgs"
    and "get_prop body ''systemPrompt'' = Inr prompt"
    and "fst (getIAMToken w key) = Inr token"
    and "watsonx w (chat_request cfg token prompt msgs) = Resolved r"
    and "ok r"
    and "json r = Some (JObj data)"
    and "lookup data ''choices'' = JArr (JObj choice # others)"
    and "lookup choice ''message'' = JObj msg"
  shows "\<exists>p. chat_handler cfg w body =
              (\<lparr> code = 200, payload = JObj p \<rparr>,
               [TokenExchange key, ChatCompletion (chat_request cfg token prompt msgs)]) \<and>
             lookup p ''content'' = lookup msg ''content'' \<and>
             lookup p ''usage'' = lookup data ''usage'' \<and>
             set (map fst p) \<subseteq> {''content'', ''usage''}"
proof -
  let ?p = "filter (\<lambda>kv. snd kv \<noteq> JUndefined)
              [(''content'', lookup msg ''content''), (''usage'', lookup data ''usage'')]"
  have "chat_handler cfg w body =
          (\<lparr> code = 200, payload = JObj ?p \<rparr>,
           [TokenExchange key, ChatCompletion (chat_request cfg token prompt msgs)])"
    using assms(7-11) getIAMToken_success [OF assms(6)]
    by (simp add: chat_handler_def chat_try_valid [OF assms(1-5)] response_json_def res_json_def)
  moreover have "lookup ?p ''content'' = lookup msg ''content''"
    "lookup ?p ''usage'' = lookup data ''usage''"
    "set (map fst ?p) \<subseteq> {''content'', ''usage''}"
    by auto
  ultimately show ?thesis by blast
qed

theorem chat_success_extracts_content_witness:
  "truthy (JStr ''key-1'') \<and>
   ok \<lparr> status = 200, body_text = [], json = Some (completion (JStr ''Hello there'')) \<rparr> \<and>
   (\<exists>p. chat_handler default_config (answering_world (JStr ''Hello there'')) example_request =
          (\<lparr> code = 200, payload = JObj p \<rparr>,
           [TokenExchange (JStr ''key-1''),
            ChatCompletion
              (chat_request default_config (JStr ''token-1'') (JStr ''Be brief.'')
                 (JArr [JObj [(''role'', JStr ''user''), (''content'', JStr ''hello'')]]))]) \<and>
        lookup p ''content'' = JStr ''Hello there'' \<and>
        lookup p ''usage'' = JObj [(''prompt_tokens'', JNum 12), (''completion_tokens'', JNum 7),
                                   (''total_tokens'', JNum 19)] \<and>
        lookup p ''id'' = JUndefined)"
proof -
  let ?w = "answering_world (JStr ''Hello there'')"
  let ?r = "\<lparr> status = 200, body_text = [], json = Some (completion (JStr ''Hello there'')) \<rparr>"
  let ?msgs = "JArr [JObj [(''role'', JStr ''user''), (''content'', JStr ''hello'')]]"
  let ?data = "own_properties (completion (JStr ''Hello there''))"
  let ?msg = "[(''role'', JStr ''assistant''), (''content'', JStr ''Hello there'')]"
  let ?choice = "[(''index'', JNum 0), (''message'', JObj ?msg), (''finish_reason'', JStr ''stop'')]"
  have k: "get_prop example_request ''apiKey'' = Inr (JStr ''key-1'')"
    and m: "get_prop example_request ''messages'' = Inr ?msgs"
    and p: "get_prop example_request ''systemPrompt'' = Inr (JStr ''Be brief.'')"
    by (simp_all add: example_request_def)
  have t: "truthy (JStr ''key-1'')" and a: "is_array ?msgs"
    by simp_all
  have tok: "fst (getIAMToken ?w (JStr ''key-1'')) = Inr (JStr ''token-1'')"
    by (simp add: getIAMToken_def answering_world_def ok_def response_json_def)
  have wx: "watsonx ?w (chat_request default_config (JStr ''token-1'') (JStr ''Be brief.'') ?msgs)
              = Resolved ?r"
    by (simp add: answering_world_def)
  have okr: "ok ?r"
    by (simp add: ok_def)
  have js: "json ?r = Some (JObj ?data)"
    by (simp add: completion_def)
  have ch: "lookup ?data ''choices'' = JArr (JObj ?choice # [])"
    by (simp add: completion_def)
  have ms: "lookup ?choice ''message'' = JObj ?msg"
    by simp
  from chat_success_extracts_content [OF k t m a p tok wx okr js ch ms]
  obtain pl where
    r: "chat_handler default_config ?w example_request =
          (\<lparr> code = 200, payload = JObj pl \<rparr>,
           [TokenExchange (JStr ''key-1''),
            ChatCompletion (chat_request default_config (JStr ''token-1'') (JStr ''Be brief.'') ?msgs)])"
       "lookup pl ''content'' = lookup ?msg ''content''"
       "lookup pl ''usage'' = lookup ?data ''usage''"
       "set (map fst pl) \<subseteq> {''content'', ''usage''}"
    by blast
  have "lookup pl ''content'' = JStr ''Hello there''"
    using r(2) by simp
  moreover have "lookup pl ''usage'' = JObj [(''prompt_tokens'', JNum 12),
      (''completion_tokens'', JNum 7), (''total_tokens'', JNum 19)]"
    using r(3) by (simp add: completion_def)
  moreover have "lookup pl ''id'' = JUndefined"
  proof -
    have "''id'' \<notin> set (map fst pl)"
      using r(4) by auto
    then have "map_of pl ''id'' = None"
      by (simp add: map_of_eq_None_iff)
    then show ?thesis
      by (simp add: lookup_def)
  qed
  ultimately show ?thesis
    using t okr r(1) by blast
qed





section \<open>Properties of the chat client\<close>

lemma getUsage_storage: "snd (getUsage today ls) = ls"
  by (simp add: getUsage_def Let_def split: option.splits stored.splits sum.splits)

lemma getUsage_pair: "getUsage today ls = (fst (getUsage today ls), ls)"
  by (metis getUsage_storage prod.collapse)

lemma app_same_storage [simp]: "a\<lparr> localStorage := localStorage a \<rparr> = a"
  by simp

lemma example_getUsage:
  "getUsage ''2026-01-02'' (localStorage (example_app n active key)) =
     (Inr (example_usage n), localStorage (example_app n active key))"
  by (simp add: example_app_def getUsage_def example_usage_def)

text \<open>
  C6, as the code has it. When the counter that \<open>getUsage\<close> returns for an agent is a
  number that has reached 200, \<open>handleSelectAgent\<close> for that agent leaves the page as
  it is, the active agent included, and makes no request to the chat endpoint. It
  shows the dialog that names the limit and the agent when the agent is not the active
  one, and returns without a dialog when it is the active one already.
\<close>

theorem select_at_limit_refused:
  assumes "fst (getUsage today (localStorage a)) = Inr u"
    and "lookup u (agent_id agent) = JNum n"
    and "MAX_CALLS_PER_DAY \<le> n"
  shows "fst (handleSelectAgent today agent a) = a \<and>
         snd (handleSelectAgent today agent a) =
           (if map_option agent_id (activeAgent a) = Some (agent_id agent) then []
            else [Alert (''Daily limit of 200 calls reached for '' @ name agent)]) \<and>
         (\<forall>c. ChatRequest c \<notin> set (snd (handleSelectAgent today agent a)))"
proof -
  have g: "getUsage today (localStorage a) = (Inr u, localStorage a)"
    using getUsage_pair [of today "localStorage a"] assms(1) by simp
  have ge: "js_ge (js_or (lookup u (agent_id agent)) (JNum 0)) MAX_CALLS_PER_DAY"
    using assms(2,3) by (simp add: js_ge_def js_or_def MAX_CALLS_PER_DAY_def)
  have sh: "show_int MAX_CALLS_PER_DAY = ''200''"
    by code_simp
  show ?thesis
    using g ge sh by (simp add: handleSelectAgent_def)
qed

theorem select_at_limit_refused_witness:
  "MAX_CALLS_PER_DAY \<le> 200 \<and>
   handleSelectAgent ''2026-01-02'' emailRewriter (example_app 200 (Some bauEstimate) []) =
     (example_app 200 (Some bauEstimate) [],
      [Alert ''Daily limit of 200 calls reached for Email Rewriter Agent''])"
proof -
  let ?a = "example_app 200 (Some bauEstimate) []"
  have u: "fst (getUsage ''2026-01-02'' (localStorage ?a)) = Inr (example_usage 200)"
    by (simp add: example_getUsage)
  have n: "lookup (example_usage 200) (agent_id emailRewriter) = JNum 200"
    by (simp add: example_usage_def emailRewriter_def)
  have lim: "MAX_CALLS_PER_DAY \<le> 200"
    by (simp add: MAX_CALLS_PER_DAY_def)
  have other: "map_option agent_id (activeAgent ?a) \<noteq> Some (agent_id emailRewriter)"
    by (simp add: example_app_def emailRewriter_def bauEstimate_def)
  from select_at_limit_refused [OF u n lim] other
  have "fst (handleSelectAgent ''2026-01-02'' emailRewriter ?a) = ?a"
    "snd (handleSelectAgent ''2026-01-02'' emailRewriter ?a) =
       [Alert (''Daily limit of 200 calls reached for '' @ name emailRewriter)]"
    by simp_all
  then have "handleSelectAgent ''2026-01-02'' emailRewriter ?a =
      (?a, [Alert (''Daily limit of 200 calls reached for '' @ name emailRewriter)])"
    by (metis prod.collapse)
  with lim show ?thesis
    by (simp add: emailRewriter_def)
qed

text \<open>
  C6, as the claim states it, fails where it says that the selection is refused with
  a notification: with the e-mail agent active and its counter at 200, selecting it
  again shows no dialog.
\<close>

theorem reselect_at_limit_no_notification:
  "fst (getUsage ''2026-01-02'' (localStorage (example_app 200 (Some emailRewriter) []))) =
     Inr [(''date'', JStr ''2026-01-02''), (''emailRewriter'', JNum 200), (''bauEstimate'', JNum 3)] \<and>
   handleSelectAgent ''2026-01-02'' emailRewriter (example_app 200 (Some emailRewriter) []) =
     (example_app 200 (Some emailRewriter) [], [])"
proof -
  let ?a = "example_app 200 (Some emailRewriter) []"
  have "fst (getUsage ''2026-01-02'' (localStorage ?a)) = Inr (example_usage 200)"
    by (simp add: example_getUsage)
  moreover have "handleSelectAgent ''2026-01-02'' emailRewriter ?a = (?a, [])"
    by (simp add: handleSelectAgent_def example_app_def)
  ultimately show ?thesis
    by (simp add: example_usage_def)
qed

text \<open>
  C9. Whenever \<open>handleSelectAgent\<close> changes the active agent, the new active agent is
  the selected one, the transcript is exactly one assistant message, whose text contains
  the name of that agent, and the error banner is empty.
\<close>

theorem agent_change_resets_transcript:
  assumes "activeAgent (fst (handleSelectAgent today agent a)) \<noteq> activeAgent a"
  shows "activeAgent (fst (handleSelectAgent today agent a)) = Some agent \<and>
         (\<exists>t. messages (chat (fst (handleSelectAgent today agent a))) =
                 [\<lparr> role = ''assistant'', content = JStr t \<rparr>] \<and>
               sublist (name agent) t) \<and>
         error (chat (fst (handleSelectAgent today agent a))) = []"
proof -
  let ?t = "''Hello! I'm the '' @ name agent @ ''. '' @ description agent @
            ''. How can I help you today?''"
  have sub: "sublist (name agent) ?t"
    unfolding sublist_def by blast
  from assms have
    "fst (handleSelectAgent today agent a) =
       a\<lparr> localStorage := snd (getUsage today (localStorage a)),
           activeAgent := Some agent,
           chat := agent_changed agent
                     (case activeAgent a of None \<Rightarrow> new_chat | Some previous \<Rightarrow> chat a) \<rparr>"
    by (auto simp: handleSelectAgent_def split: if_splits prod.splits sum.splits)
  then have "activeAgent (fst (handleSelectAgent today agent a)) = Some agent"
    "messages (chat (fst (handleSelectAgent today agent a))) =
       [\<lparr> role = ''assistant'', content = JStr ?t \<rparr>]"
    "error (chat (fst (handleSelectAgent today agent a))) = []"
    by (simp_all add: agent_changed_def)
  with sub show ?thesis by blast
qed

theorem agent_change_resets_transcript_witness:
  "activeAgent (fst (handleSelectAgent ''2026-01-02'' emailRewriter (example_app 5 (Some bauEstimate) [])))
     \<noteq> activeAgent (example_app 5 (Some bauEstimate) []) \<and>
   (\<exists>t. messages (chat (fst (handleSelectAgent ''2026-01-02'' emailRewriter
                               (example_app 5 (Some bauEstimate) [])))) =
           [\<lparr> role = ''assistant'', content = JStr t \<rparr>] \<and>
         sublist ''Email Rewriter Agent'' t) \<and>
   error (chat (fst (handleSelectAgent ''2026-01-02'' emailRewriter
                       (example_app 5 (Some bauEstimate) [])))) = []"
proof -
  let ?a = "example_app 5 (Some bauEstimate) []"
  have ge: "\<not> js_ge (js_or (lookup (example_usage 5) (agent_id emailRewriter)) (JNum 0)) MAX_CALLS_PER_DAY"
    by (simp add: example_usage_def emailRewriter_def js_or_def js_ge_def MAX_CALLS_PER_DAY_def)
  have ch: "activeAgent (fst (handleSelectAgent ''2026-01-02'' emailRewriter ?a)) \<noteq> activeAgent ?a"
    using ge by (simp add: handleSelectAgent_def example_getUsage)
       (simp add: example_app_def emailRewriter_def bauEstimate_def)
  from agent_change_resets_transcript [OF ch] ch show ?thesis
    by (simp add: emailRewriter_def)
qed


lemma keep_last_10_suffix: "suffix (keep_last_10 h) h"
  by (simp add: keep_last_10_def suffix_drop)


lemma handleIncrement_rest:
  "handleIncrement today k a = Inr a' \<Longrightarrow>
     activeAgent a' = activeAgent a \<and> apiKey a' = apiKey a \<and> pending a' = pending a"
  by (auto simp: handleIncrement_def split: prod.splits sum.splits)


















end
